theory Spec2Isabelle
  imports Main "HOL-Library.Sublist"
begin

section \<open>Unity WebGL static file server (server.py)\<close>

text \<open>
  The program is one class, \<open>UnityWebGLHandler\<close>, which overrides four methods of the
  Python standard library's \<open>http.server.SimpleHTTPRequestHandler\<close>: \<open>end_headers\<close>,
  \<open>guess_type\<close>, \<open>do_GET\<close> and \<open>send_head\<close>.  The overrides are translated from
  \<open>server.py\<close>; the inherited methods they call (\<open>translate_path\<close>, \<open>send_response\<close>,
  \<open>send_error\<close>, the inherited \<open>send_head\<close>, the method dispatch of
  \<open>handle_one_request\<close>) are translated from CPython 3.11's \<open>http/server.py\<close>,
  \<open>posixpath.py\<close> and \<open>urllib/parse.py\<close>.

  Strings are lists of 8-bit characters, which is exact for ASCII text.  A request is a
  request line that the library has parsed as HTTP/1.x into \<open>self.command\<close> and
  \<open>self.path\<close>.  Request headers are not part of the model: the overrides read none, and
  the one the inherited \<open>send_head\<close> reads (\<open>If-Modified-Since\<close>, answered 304 for an
  unchanged file) is taken to be absent.  Symbolic links and file permissions are not
  part of the file system.
\<close>

subsection \<open>Strings as Python uses them\<close>

definition endswith :: "string \<Rightarrow> string \<Rightarrow> bool" where
  "endswith s suf = suffix suf s"

definition startswith :: "string \<Rightarrow> string \<Rightarrow> bool" where
  "startswith s pre = prefix pre s"

definition lower_char :: "char \<Rightarrow> char" where
  "lower_char c =
     (case map_of (zip ''ABCDEFGHIJKLMNOPQRSTUVWXYZ'' ''abcdefghijklmnopqrstuvwxyz'') c of
        Some l \<Rightarrow> l
      | None \<Rightarrow> c)"

definition lower :: "string \<Rightarrow> string" where
  "lower s = map lower_char s"

text \<open>\<open>s.split(c)\<close>: always at least one piece.\<close>

fun py_split :: "char \<Rightarrow> string \<Rightarrow> string list" where
  "py_split c [] = [[]]"
| "py_split c (x # xs) =
     (if x = c then [] # py_split c xs
      else (case py_split c xs of
              [] \<Rightarrow> [[x]]
            | w # ws \<Rightarrow> (x # w) # ws))"

text \<open>\<open>sep.join(words)\<close>.\<close>

fun py_joinsep :: "string \<Rightarrow> string list \<Rightarrow> string" where
  "py_joinsep sep [] = []"
| "py_joinsep sep [w] = w"
| "py_joinsep sep (w # v # ws) = w @ sep @ py_joinsep sep (v # ws)"

definition is_space :: "char \<Rightarrow> bool" where
  "is_space c \<longleftrightarrow>
     c \<in> set [CHR '' '', CHR 0x09, CHR 0x0A, CHR 0x0B, CHR 0x0C, CHR 0x0D,
                CHR 0x1C, CHR 0x1D, CHR 0x1E, CHR 0x1F, CHR 0x85, CHR 0xA0]"

definition rstrip :: "string \<Rightarrow> string" where
  "rstrip s = rev (dropWhile is_space (rev s))"

subsection \<open>The process environment\<close>

text \<open>
  The file system is a tree.  A regular file has its bytes and its modification time; a
  directory has the size \<open>stat\<close> reports for it and its entries.
\<close>

datatype node =
    File string nat
  | Dir nat "(string \<times> node) list"

text \<open>
  What the handler reads but does not compute: the global \<open>DIRECTORY\<close>, the file system
  as the process sees it (the current directory first, then its ancestors up to \<open>/\<close>), and
  the library's renderings that no override touches (the \<open>mimetypes\<close> fallback of the
  inherited \<open>guess_type\<close>, the HTML of error pages and directory listings, date strings,
  \<open>repr\<close>, and \<open>urlsplit\<close>/\<open>urlunsplit\<close> of the request target).
\<close>

record env =
  directory :: string
  cwd_stack :: "node list"
  version_string :: string
  date_time_now :: string
  date_time_string :: "nat \<Rightarrow> string"
  fs_encoding :: string
  mimetypes_guess :: "string \<Rightarrow> string"
  error_page :: "nat \<Rightarrow> string \<Rightarrow> string"
  listing_page :: "string \<Rightarrow> (string \<times> bool) list \<Rightarrow> string"
  py_repr :: "string \<Rightarrow> string"
  urlsplit_path :: "string \<Rightarrow> string"
  redirect_url :: "string \<Rightarrow> string"

subsection \<open>\<open>guess_type\<close>\<close>

text \<open>The dictionary \<open>unity_types\<close>, in the order of its declaration.\<close>

definition unity_types :: "(string \<times> string) list" where
  "unity_types =
     [(''.unityweb'', ''application/octet-stream''),
      (''.wasm'', ''application/wasm''),
      (''.wasm.gz'', ''application/wasm''),
      (''.wasm.br'', ''application/wasm''),
      (''.js.gz'', ''application/javascript''),
      (''.js.br'', ''application/javascript''),
      (''.data'', ''application/octet-stream''),
      (''.data.gz'', ''application/octet-stream''),
      (''.data.br'', ''application/octet-stream''),
      (''.symbols.json'', ''application/json''),
      (''.symbols.json.gz'', ''application/json''),
      (''.symbols.json.br'', ''application/json'')]"

text \<open>The loop \<open>for ext, mime_type in unity_types.items()\<close>: the first match returns.\<close>

fun scan_types :: "(string \<times> string) list \<Rightarrow> string \<Rightarrow> string option" where
  "scan_types [] path_lower = None"
| "scan_types ((ext, mime_type) # rest) path_lower =
     (if endswith path_lower ext then Some mime_type else scan_types rest path_lower)"

definition guess_type :: "env \<Rightarrow> string \<Rightarrow> string" where
  "guess_type e p =
     (case scan_types unity_types (lower p) of
        Some mime_type \<Rightarrow> mime_type
      | None \<Rightarrow> mimetypes_guess e p)"



definition no_proper_suffix :: "(string \<times> string) list \<Rightarrow> bool" where
  "no_proper_suffix tbl =
     list_all (\<lambda>(e1, m1). list_all (\<lambda>(e2, m2). suffix e1 e2 \<longrightarrow> e1 = e2) tbl) tbl"

subsection \<open>The operating system's view of the file system\<close>

datatype os_error = FileNotFoundError | IsADirectoryError | NotADirectoryError

text \<open>
  Path resolution, one path component at a time.  The first argument is the directory
  reached so far followed by its ancestors, so that \<open>..\<close> can step back.
\<close>

fun walk :: "node list \<Rightarrow> string list \<Rightarrow> node list option" where
  "walk st [] = Some st"
| "walk [] (s # ss) = None"
| "walk (File c t # anc) (s # ss) = None"
| "walk (Dir sz es # anc) (s # ss) =
     (if s = [] \<or> s = ''.'' then walk (Dir sz es # anc) ss
      else if s = ''..'' then walk (if anc = [] then [Dir sz es] else anc) ss
      else (case map_of es s of
              None \<Rightarrow> None
            | Some c \<Rightarrow> walk (c # Dir sz es # anc) ss))"

definition start_stack :: "env \<Rightarrow> string \<Rightarrow> node list" where
  "start_stack e p =
     (if startswith p ''/'' then (if cwd_stack e = [] then [] else [last (cwd_stack e)])
      else cwd_stack e)"

definition stat :: "env \<Rightarrow> string \<Rightarrow> node option" where
  "stat e p =
     (if p = [] then None
      else (case walk (start_stack e p) (py_split CHR ''/'' p) of
              Some (n # anc) \<Rightarrow> Some n
            | _ \<Rightarrow> None))"

definition exists :: "env \<Rightarrow> string \<Rightarrow> bool" where
  "exists e p = (stat e p \<noteq> None)"

definition isdir :: "env \<Rightarrow> string \<Rightarrow> bool" where
  "isdir e p = (case stat e p of Some (Dir sz es) \<Rightarrow> True | _ \<Rightarrow> False)"

definition isfile :: "env \<Rightarrow> string \<Rightarrow> bool" where
  "isfile e p = (case stat e p of Some (File c t) \<Rightarrow> True | _ \<Rightarrow> False)"

definition getsize :: "env \<Rightarrow> string \<Rightarrow> os_error + nat" where
  "getsize e p =
     (case stat e p of
        None \<Rightarrow> Inl FileNotFoundError
      | Some (File c t) \<Rightarrow> Inr (length c)
      | Some (Dir sz es) \<Rightarrow> Inr sz)"

text \<open>\<open>open(path, 'rb')\<close>: the bytes of the file, with the modification time \<open>fstat\<close> gives.\<close>

definition open_rb :: "env \<Rightarrow> string \<Rightarrow> os_error + (string \<times> nat)" where
  "open_rb e p =
     (case stat e p of
        None \<Rightarrow> Inl FileNotFoundError
      | Some (File c t) \<Rightarrow> Inr (c, t)
      | Some (Dir sz es) \<Rightarrow> Inl IsADirectoryError)"

definition listdir :: "env \<Rightarrow> string \<Rightarrow> os_error + string list" where
  "listdir e p =
     (case stat e p of
        None \<Rightarrow> Inl FileNotFoundError
      | Some (File c t) \<Rightarrow> Inl NotADirectoryError
      | Some (Dir sz es) \<Rightarrow> Inr (map fst es))"

subsection \<open>\<open>posixpath\<close> and \<open>urllib.parse\<close>\<close>

text \<open>\<open>os.path.join(a, b)\<close>.\<close>

definition py_join :: "string \<Rightarrow> string \<Rightarrow> string" where
  "py_join a b =
     (if startswith b ''/'' then b
      else if a = [] \<or> endswith a ''/'' then a @ b
      else a @ ''/'' @ b)"

definition dirname :: "string \<Rightarrow> string" where
  "dirname p =
     (let head = rev (dropWhile (\<lambda>c. c \<noteq> CHR ''/'') (rev p))
      in if head \<noteq> [] \<and> head \<noteq> replicate (length head) CHR ''/''
         then rev (dropWhile (\<lambda>c. c = CHR ''/'') (rev head))
         else head)"

text \<open>The loop body of \<open>posixpath.normpath\<close>.\<close>

definition normpath_step :: "nat \<Rightarrow> string list \<Rightarrow> string \<Rightarrow> string list" where
  "normpath_step initial_slashes new_comps component =
     (if component = [] \<or> component = ''.'' then new_comps
      else if component \<noteq> ''..'' \<or> (initial_slashes = 0 \<and> new_comps = [])
              \<or> (new_comps \<noteq> [] \<and> last new_comps = ''..'')
      then new_comps @ [component]
      else if new_comps \<noteq> [] then butlast new_comps
      else new_comps)"

definition normpath :: "string \<Rightarrow> string" where
  "normpath p =
     (if p = [] then ''.''
      else
        (let initial_slashes =
               (if startswith p ''/''
                then (if startswith p ''//'' \<and> \<not> startswith p ''///'' then 2 else 1)
                else (0::nat));
             comps = foldl (normpath_step initial_slashes) [] (py_split CHR ''/'' p);
             q = replicate initial_slashes CHR ''/'' @ py_joinsep ''/'' comps
         in if q = [] then ''.'' else q))"

definition unhex :: "char \<Rightarrow> nat option" where
  "unhex c =
     map_of (zip ''0123456789ABCDEFabcdef''
               [0, 1, 2, 3, 4, 5, 6, 7, 8, 9, 10, 11, 12, 13, 14, 15, 10, 11, 12, 13, 14, 15]) c"

text \<open>\<open>urllib.parse.unquote\<close>: \<open>%\<close> followed by two hexadecimal digits is one character.\<close>

fun unquote :: "string \<Rightarrow> string" where
  "unquote (c # h1 # h2 # rest) =
     (if c = CHR ''%''
      then (case (unhex h1, unhex h2) of
              (Some a, Some b) \<Rightarrow> char_of (16 * a + b) # unquote rest
            | _ \<Rightarrow> c # unquote (h1 # h2 # rest))
      else c # unquote (h1 # h2 # rest))"
| "unquote cs = cs"





text \<open>\<open>str(n)\<close> for a size.\<close>

fun str_nat :: "nat \<Rightarrow> string" where
  "str_nat n =
     (if n < 10 then [''0123456789'' ! n]
      else str_nat (n div 10) @ [''0123456789'' ! (n mod 10)])"

declare str_nat.simps [simp del]

text \<open>\<open>SimpleHTTPRequestHandler.translate_path\<close>, with \<open>self.directory = DIRECTORY\<close>.\<close>

definition translate_words :: "string \<Rightarrow> string list" where
  "translate_words p =
     filter (\<lambda>word. \<not> (dirname word \<noteq> [] \<or> word = ''.'' \<or> word = ''..''))
       (filter (\<lambda>word. word \<noteq> []) (py_split CHR ''/'' (normpath (unquote p))))"

definition translate_path :: "env \<Rightarrow> string \<Rightarrow> string" where
  "translate_path e p0 =
     (let p = takeWhile (\<lambda>c. c \<noteq> CHR ''?'') p0;
          p = takeWhile (\<lambda>c. c \<noteq> CHR ''#'') p;
          trailing_slash = endswith (rstrip p) ''/'';
          joined = foldl py_join (directory e) (translate_words p)
      in if trailing_slash then joined @ ''/'' else joined)"








subsection \<open>The handler's output\<close>

text \<open>
  What the handler writes is a sequence of lines: the status line, header lines, the
  blank line that ends the headers, and body data.  Headers are first collected in
  \<open>_headers_buffer\<close> and reach \<open>wfile\<close> when the headers are flushed.
\<close>

datatype line = StatusLine nat | Header string string | Blank | Data string

record handler =
  command :: string
  path :: string
  headers_buffer :: "line list"
  wfile :: "line list"
  send_header_on_compressed :: "string option"

definition send_response_only :: "nat \<Rightarrow> handler \<Rightarrow> handler" where
  "send_response_only code h = h\<lparr>headers_buffer := headers_buffer h @ [StatusLine code]\<rparr>"

definition send_header :: "string \<Rightarrow> string \<Rightarrow> handler \<Rightarrow> handler" where
  "send_header keyword val h = h\<lparr>headers_buffer := headers_buffer h @ [Header keyword val]\<rparr>"

definition send_response :: "env \<Rightarrow> nat \<Rightarrow> handler \<Rightarrow> handler" where
  "send_response e code h =
     (let h = send_response_only code h;
          h = send_header ''Server'' (version_string e) h
      in send_header ''Date'' (date_time_now e) h)"

definition flush_headers :: "handler \<Rightarrow> handler" where
  "flush_headers h = h\<lparr>wfile := wfile h @ headers_buffer h, headers_buffer := []\<rparr>"

text \<open>\<open>BaseHTTPRequestHandler.end_headers\<close>, reached through \<open>super().end_headers()\<close>.\<close>

definition base_end_headers :: "handler \<Rightarrow> handler" where
  "base_end_headers h = flush_headers (h\<lparr>headers_buffer := headers_buffer h @ [Blank]\<rparr>)"

text \<open>\<open>UnityWebGLHandler.end_headers\<close>.\<close>

definition end_headers :: "handler \<Rightarrow> handler" where
  "end_headers h =
     (let h = send_header ''Access-Control-Allow-Origin'' ''*'' h;
          h = send_header ''Access-Control-Allow-Methods'' ''GET, OPTIONS'' h;
          h = send_header ''Access-Control-Allow-Headers'' ''Content-Type'' h;
          h = send_header ''Cross-Origin-Opener-Policy'' ''same-origin'' h;
          h = send_header ''Cross-Origin-Embedder-Policy'' ''require-corp'' h
      in base_end_headers h)"

definition wfile_write :: "string \<Rightarrow> handler \<Rightarrow> handler" where
  "wfile_write bytes h = h\<lparr>wfile := wfile h @ [Data bytes]\<rparr>"

text \<open>
  \<open>BaseHTTPRequestHandler.send_error\<close>; its \<open>self.end_headers()\<close> is the override.
\<close>

definition send_error :: "env \<Rightarrow> nat \<Rightarrow> string \<Rightarrow> handler \<Rightarrow> handler" where
  "send_error e code message h =
     (let h = send_response e code h;
          h = send_header ''Connection'' ''close'' h;
          body = (if code \<ge> 200 \<and> code \<noteq> 204 \<and> code \<noteq> 205 \<and> code \<noteq> 304
                  then Some (error_page e code message) else None);
          h = (case body of
                 Some b \<Rightarrow>
                   send_header ''Content-Length'' (str_nat (length b))
                     (send_header ''Content-Type'' ''text/html;charset=utf-8'' h)
               | None \<Rightarrow> h);
          h = end_headers h
      in case body of
           Some b \<Rightarrow> if command h \<noteq> ''HEAD'' \<and> b \<noteq> [] then wfile_write b h else h
         | None \<Rightarrow> h)"

subsection \<open>The inherited \<open>send_head\<close>\<close>

text \<open>
  The part of \<open>SimpleHTTPRequestHandler.send_head\<close> after the directory case: the type is
  asked of \<open>self.guess_type\<close>, which is the override.
\<close>

definition serve_file :: "env \<Rightarrow> string \<Rightarrow> handler \<Rightarrow> (os_error + string option) \<times> handler" where
  "serve_file e p h =
     (let ctype = guess_type e p
      in if endswith p ''/'' then (Inr None, send_error e 404 ''File not found'' h)
         else (case open_rb e p of
                 Inl err \<Rightarrow> (Inr None, send_error e 404 ''File not found'' h)
               | Inr (f, mtime) \<Rightarrow>
                   (let h = send_response e 200 h;
                        h = send_header ''Content-type'' ctype h;
                        h = send_header ''Content-Length'' (str_nat (length f)) h;
                        h = send_header ''Last-Modified'' (date_time_string e mtime) h;
                        h = end_headers h
                    in (Inr (Some f), h))))"

definition list_directory :: "env \<Rightarrow> string \<Rightarrow> handler \<Rightarrow> (os_error + string option) \<times> handler" where
  "list_directory e p h =
     (case listdir e p of
        Inl err \<Rightarrow> (Inr None, send_error e 404 ''No permission to list directory'' h)
      | Inr names \<Rightarrow>
          (let entries = map (\<lambda>name. (name, isdir e (py_join p name))) names;
               encoded = listing_page e (path h) entries;
               h = send_response e 200 h;
               h = send_header ''Content-type'' (''text/html; charset='' @ fs_encoding e) h;
               h = send_header ''Content-Length'' (str_nat (length encoded)) h;
               h = end_headers h
           in (Inr (Some encoded), h)))"

definition base_send_head :: "env \<Rightarrow> handler \<Rightarrow> (os_error + string option) \<times> handler" where
  "base_send_head e h =
     (let p = translate_path e (path h)
      in if isdir e p then
           (if \<not> endswith (urlsplit_path e (path h)) ''/'' then
              (let h = send_response e 301 h;
                   h = send_header ''Location'' (redirect_url e (path h)) h;
                   h = send_header ''Content-Length'' ''0'' h;
                   h = end_headers h
               in (Inr None, h))
            else if isfile e (py_join p ''index.html'') then serve_file e (py_join p ''index.html'') h
            else if isfile e (py_join p ''index.htm'') then serve_file e (py_join p ''index.htm'') h
            else list_directory e p h)
         else serve_file e p h)"

subsection \<open>\<open>UnityWebGLHandler.send_head\<close> and \<open>do_GET\<close>\<close>

text \<open>
  The two branches of the override for \<open>.gz\<close> and \<open>.br\<close> are the same six statements
  with another value of \<open>Content-Encoding\<close>.  An exception of \<open>os.path.getsize\<close> or
  \<open>open\<close> leaves the method with what has been written so far.
\<close>

definition serve_compressed ::
  "env \<Rightarrow> string \<Rightarrow> string \<Rightarrow> handler \<Rightarrow> (os_error + string option) \<times> handler" where
  "serve_compressed e encoding p h =
     (let h = send_response e 200 h;
          h = send_header ''Content-Encoding'' encoding h;
          h = send_header ''Content-Type'' (guess_type e p) h
      in case getsize e p of
           Inl err \<Rightarrow> (Inl err, h)
         | Inr n \<Rightarrow>
             (let h = send_header ''Content-Length'' (str_nat n) h;
                  h = end_headers h
              in case open_rb e p of
                   Inl err \<Rightarrow> (Inl err, h)
                 | Inr (f, mtime) \<Rightarrow> (Inr (Some f), h)))"

definition send_head :: "env \<Rightarrow> handler \<Rightarrow> (os_error + string option) \<times> handler" where
  "send_head e h =
     (let p = translate_path e (path h)
      in if exists e p then
           (if endswith p ''.gz'' then serve_compressed e ''gzip'' p h
            else if endswith p ''.br'' then serve_compressed e ''br'' p h
            else base_send_head e h)
         else base_send_head e h)"

text \<open>The inherited \<open>do_GET\<close> and \<open>do_HEAD\<close>; their \<open>self.send_head()\<close> is the override.\<close>

definition base_do_GET :: "env \<Rightarrow> handler \<Rightarrow> os_error option \<times> handler" where
  "base_do_GET e h =
     (case send_head e h of
        (Inl err, h) \<Rightarrow> (Some err, h)
      | (Inr None, h) \<Rightarrow> (None, h)
      | (Inr (Some f), h) \<Rightarrow> (None, wfile_write f h))"

definition do_HEAD :: "env \<Rightarrow> handler \<Rightarrow> os_error option \<times> handler" where
  "do_HEAD e h =
     (case send_head e h of
        (Inl err, h) \<Rightarrow> (Some err, h)
      | (Inr f, h) \<Rightarrow> (None, h))"

definition do_GET :: "env \<Rightarrow> handler \<Rightarrow> os_error option \<times> handler" where
  "do_GET e h =
     (let p = translate_path e (path h);
          h = h\<lparr>send_header_on_compressed :=
                  (if endswith p ''.gz'' then Some ''gzip''
                   else if endswith p ''.br'' then Some ''br''
                   else None)\<rparr>
      in base_do_GET e h)"

text \<open>
  The dispatch of \<open>BaseHTTPRequestHandler.handle_one_request\<close>: the class has the methods
  \<open>do_GET\<close> and \<open>do_HEAD\<close> and no other \<open>do_\<close> method.
\<close>

definition handle_one_request :: "env \<Rightarrow> handler \<Rightarrow> os_error option \<times> handler" where
  "handle_one_request e h =
     (if command h = ''GET'' then do_GET e h
      else if command h = ''HEAD'' then do_HEAD e h
      else (None, send_error e 501 (''Unsupported method ('' @ py_repr e (command h) @ '')'') h))"

subsection \<open>A request and its response\<close>

definition request :: "string \<Rightarrow> string \<Rightarrow> handler" where
  "request cmd target =
     \<lparr>command = cmd, path = target, headers_buffer = [], wfile = [],
      send_header_on_compressed = None\<rparr>"

definition response :: "env \<Rightarrow> string \<Rightarrow> string \<Rightarrow> line list" where
  "response e cmd target = wfile (snd (handle_one_request e (request cmd target)))"

fun statuses :: "line list \<Rightarrow> nat list" where
  "statuses [] = []"
| "statuses (StatusLine code # ls) = code # statuses ls"
| "statuses (l # ls) = statuses ls"

fun headers :: "line list \<Rightarrow> (string \<times> string) list" where
  "headers [] = []"
| "headers (Header keyword val # ls) = (keyword, val) # headers ls"
| "headers (l # ls) = headers ls"

fun body :: "line list \<Rightarrow> string" where
  "body [] = []"
| "body (Data bytes # ls) = bytes @ body ls"
| "body (l # ls) = body ls"

text \<open>The values of a header; header names do not distinguish case.\<close>

definition header_values :: "string \<Rightarrow> line list \<Rightarrow> string list" where
  "header_values name ls = map snd (filter (\<lambda>(keyword, val). lower keyword = lower name) (headers ls))"

definition fixed_headers :: "(string \<times> string) list" where
  "fixed_headers =
     [(''Access-Control-Allow-Origin'', ''*''),
      (''Access-Control-Allow-Methods'', ''GET, OPTIONS''),
      (''Access-Control-Allow-Headers'', ''Content-Type''),
      (''Cross-Origin-Opener-Policy'', ''same-origin''),
      (''Cross-Origin-Embedder-Policy'', ''require-corp'')]"

text \<open>What the override of \<open>end_headers\<close> appends to the buffered lines.\<close>

definition fixed_lines :: "line list" where
  "fixed_lines = map (\<lambda>(keyword, val). Header keyword val) fixed_headers @ [Blank]"

subsection \<open>An example installation\<close>

text \<open>
  The process runs in \<open>/srv\<close> with \<open>DIRECTORY = "Build"\<close>; \<open>/etc/passwd\<close> lies outside
  the served directory.
\<close>

definition example_build :: node where
  "example_build =
     Dir 4096
       [(''index.html'', File ''<html></html>'' 10),
        (''x.js.gz'', File ''compressed script'' 11),
        (''x.symbols.json.br'', File ''compressed symbols'' 12),
        (''X.WASM.GZ'', File ''compressed module'' 13),
        (''a b#1'', File ''odd name'' 14),
        (''Build'', Dir 4096 [(''game.wasm'', File ''module'' 15)])]"

definition example_srv :: node where
  "example_srv = Dir 4096 [(''Build'', example_build)]"

definition example_root :: node where
  "example_root =
     Dir 4096 [(''etc'', Dir 4096 [(''passwd'', File ''root:x:0:0'' 1)]), (''srv'', example_srv)]"


definition example_env :: env where
  "example_env =
     \<lparr>directory = ''Build'',
      cwd_stack = [example_srv, example_root],
      version_string = ''SimpleHTTP/0.6'',
      date_time_now = ''Thu, 01 Jan 1970 00:00:00 GMT'',
      date_time_string = str_nat,
      fs_encoding = ''utf-8'',
      mimetypes_guess = (\<lambda>p. ''application/octet-stream''),
      error_page = (\<lambda>code message. str_nat code @ '' '' @ message),
      listing_page = (\<lambda>p entries. concat (map fst entries)),
      py_repr = (\<lambda>s. s),
      urlsplit_path = (\<lambda>p. takeWhile (\<lambda>c. c \<noteq> CHR ''?'' \<and> c \<noteq> CHR ''#'') p),
      redirect_url = (\<lambda>p. p @ ''/'')\<rparr>"

section \<open>Facts about the table lookup\<close>

lemma scan_types_None:
  "scan_types tbl pl = None \<longleftrightarrow> (\<forall>(ext, m) \<in> set tbl. \<not> endswith pl ext)"
  by (induction tbl pl rule: scan_types.induct) auto

lemma scan_types_Some:
  "scan_types tbl pl = Some m \<Longrightarrow> \<exists>ext. (ext, m) \<in> set tbl \<and> endswith pl ext"
  by (induction tbl pl rule: scan_types.induct) (auto split: if_splits)

lemma unity_types_no_proper_suffix: "no_proper_suffix unity_types"
  by (simp add: no_proper_suffix_def unity_types_def suffix_to_prefix)

lemma unity_types_distinct: "distinct (map fst unity_types)"
  by (simp add: unity_types_def)

lemma unique_match:
  assumes nps: "no_proper_suffix tbl" and d: "distinct (map fst tbl)"
    and a: "(e1, m1) \<in> set tbl" "endswith pl e1"
    and b: "(e2, m2) \<in> set tbl" "endswith pl e2"
  shows "m1 = m2"
proof -
  from a(2) b(2) have "suffix e1 e2 \<or> suffix e2 e1"
    unfolding endswith_def by (rule suffix_same_cases)
  moreover from nps a(1) b(1) have "suffix e1 e2 \<longrightarrow> e1 = e2" "suffix e2 e1 \<longrightarrow> e2 = e1"
    unfolding no_proper_suffix_def list_all_iff by fastforce+
  ultimately have "e1 = e2" by blast
  with d a(1) b(1) show ?thesis by (auto dest: eq_key_imp_eq_value)
qed



lemma lower_literals:
  "lower ''x.symbols.json.br'' = ''x.symbols.json.br''"
  "lower ''x.js.gz'' = ''x.js.gz''"
  "lower ''X.WASM'' = ''x.wasm''"
  by (simp_all add: lower_def lower_char_def)

section \<open>What the handler writes\<close>

lemma statuses_append: "statuses (xs @ ys) = statuses xs @ statuses ys"
  by (induction xs rule: statuses.induct) simp_all

lemma headers_append: "headers (xs @ ys) = headers xs @ headers ys"
  by (induction xs rule: headers.induct) simp_all

lemma body_append: "body (xs @ ys) = body xs @ body ys"
  by (induction xs rule: body.induct) simp_all

lemma send_header_sel:
  "headers_buffer (send_header k v h) = headers_buffer h @ [Header k v]"
  "wfile (send_header k v h) = wfile h"
  "command (send_header k v h) = command h"
  "path (send_header k v h) = path h"
  by (simp_all add: send_header_def)

lemma send_response_sel:
  "headers_buffer (send_response e code h) =
     headers_buffer h @ [StatusLine code, Header ''Server'' (version_string e),
                         Header ''Date'' (date_time_now e)]"
  "wfile (send_response e code h) = wfile h"
  "command (send_response e code h) = command h"
  "path (send_response e code h) = path h"
  by (simp_all add: send_response_def send_response_only_def send_header_def)

lemma end_headers_sel:
  "wfile (end_headers h) = wfile h @ headers_buffer h @ fixed_lines"
  "headers_buffer (end_headers h) = []"
  "command (end_headers h) = command h"
  "path (end_headers h) = path h"
  by (simp_all add: end_headers_def base_end_headers_def flush_headers_def send_header_def
      fixed_lines_def fixed_headers_def)

lemma wfile_write_sel:
  "wfile (wfile_write b h) = wfile h @ [Data b]"
  "headers_buffer (wfile_write b h) = headers_buffer h"
  by (simp_all add: wfile_write_def)

lemma send_error_wfile:
  assumes "200 \<le> code" "code \<noteq> 204" "code \<noteq> 205" "code \<noteq> 304"
  shows "wfile (send_error e code msg h) =
     wfile h @ headers_buffer h @
     [StatusLine code, Header ''Server'' (version_string e), Header ''Date'' (date_time_now e),
      Header ''Connection'' ''close'', Header ''Content-Type'' ''text/html;charset=utf-8'',
      Header ''Content-Length'' (str_nat (length (error_page e code msg)))] @ fixed_lines @
     (if command h \<noteq> ''HEAD'' \<and> error_page e code msg \<noteq> [] then [Data (error_page e code msg)] else [])"
  using assms
  by (simp add: send_error_def Let_def send_header_sel send_response_sel end_headers_sel wfile_write_sel)

lemma fixed_lines_sel:
  "statuses fixed_lines = []" "headers fixed_lines = fixed_headers" "body fixed_lines = []"
  by (simp_all add: fixed_lines_def fixed_headers_def)

lemmas proj_append = statuses_append headers_append body_append fixed_lines_sel












lemma request_sel:
  "command (request cmd t) = cmd" "path (request cmd t) = t"
  "wfile (request cmd t) = []" "headers_buffer (request cmd t) = []"
  by (simp_all add: request_def)

section \<open>Splitting paths and walking the tree\<close>

lemma py_split_nonempty: "py_split c xs \<noteq> []"
  by (induction xs) (auto split: list.splits)

lemma py_split_append: "py_split c (xs @ c # ys) = py_split c xs @ py_split c ys"
proof (induction xs)
  case Nil
  show ?case by simp
next
  case (Cons x xs)
  obtain w ws where "py_split c xs = w # ws"
    using py_split_nonempty [of c xs] by (cases "py_split c xs") auto
  with Cons show ?case by simp
qed

lemma py_split_snoc: "py_split c (xs @ [c]) = py_split c xs @ [[]]"
  using py_split_append [of c xs "[]"] by simp

lemma walk_append:
  "walk st (xs @ ys) = (case walk st xs of None \<Rightarrow> None | Some st' \<Rightarrow> walk st' ys)"
proof (induction st xs rule: walk.induct)
  case (1 st)
  show ?case by simp
next
  case (2 s ss)
  show ?case by simp
next
  case (3 c t anc s ss)
  show ?case by simp
next
  case (4 sz es anc s ss)
  then show ?case by (simp split: option.splits)
qed

lemma walk_empty_segment:
  "walk st [[]] = Some (n # anc) \<Longrightarrow> \<exists>sz es. n = Dir sz es"
  by (cases "(st, [[]::string])" rule: walk.cases) (auto split: if_splits)

lemma stat_file_no_trailing_slash:
  assumes "stat e p = Some (File c t)"
  shows "\<not> endswith p ''/''"
proof
  assume "endswith p ''/''"
  then obtain q where p: "p = q @ ''/''"
    by (auto simp: endswith_def suffix_def)
  from assms obtain anc where
    "walk (start_stack e p) (py_split CHR ''/'' q @ [[]]) = Some (File c t # anc)"
    by (auto simp: stat_def p py_split_snoc split: if_splits option.splits list.splits)
  then obtain st' where "walk st' [[]] = Some (File c t # anc)"
    by (auto simp: walk_append split: option.splits)
  from walk_empty_segment [OF this] show False by simp
qed

section \<open>The response for an existing file\<close>

lemma scan_types_member:
  assumes "(ext, m) \<in> set unity_types" "endswith pl ext"
  shows "scan_types unity_types pl = Some m"
proof -
  from assms have "scan_types unity_types pl \<noteq> None"
    by (auto simp: scan_types_None)
  then obtain m' where m': "scan_types unity_types pl = Some m'" by blast
  then obtain ext' where "(ext', m') \<in> set unity_types" "endswith pl ext'"
    by (blast dest: scan_types_Some)
  from unique_match [OF unity_types_no_proper_suffix unity_types_distinct assms this]
  show ?thesis using m' by simp
qed

lemma guess_type_member:
  "(ext, m) \<in> set unity_types \<Longrightarrow> endswith (lower p) ext \<Longrightarrow> guess_type e p = m"
  by (simp add: guess_type_def scan_types_member)

lemma unity_types_lower: "(ext, m) \<in> set unity_types \<Longrightarrow> lower ext = ext"
  by (auto simp: unity_types_def lower_def lower_char_def)

lemma endswith_lower: "endswith p s \<Longrightarrow> endswith (lower p) (lower s)"
  by (auto simp: endswith_def suffix_def lower_def)

lemma endswith_same_length:
  "endswith p a \<Longrightarrow> endswith p b \<Longrightarrow> length a = length b \<Longrightarrow> a = b"
  by (auto simp: endswith_def suffix_def)

lemma send_head_file:
  assumes "stat e (translate_path e (path h)) = Some (File c t)"
  shows "send_head e h =
    (Inr (Some c),
     h\<lparr>wfile := wfile h @ headers_buffer h @
         [StatusLine 200, Header ''Server'' (version_string e), Header ''Date'' (date_time_now e)]
         @ (if endswith (translate_path e (path h)) ''.gz'' then
              [Header ''Content-Encoding'' ''gzip'',
               Header ''Content-Type'' (guess_type e (translate_path e (path h))),
               Header ''Content-Length'' (str_nat (length c))]
            else if endswith (translate_path e (path h)) ''.br'' then
              [Header ''Content-Encoding'' ''br'',
               Header ''Content-Type'' (guess_type e (translate_path e (path h))),
               Header ''Content-Length'' (str_nat (length c))]
            else
              [Header ''Content-type'' (guess_type e (translate_path e (path h))),
               Header ''Content-Length'' (str_nat (length c)),
               Header ''Last-Modified'' (date_time_string e t)])
         @ fixed_lines,
       headers_buffer := []\<rparr>)"
  using assms stat_file_no_trailing_slash [OF assms]
  by (simp add: send_head_def base_send_head_def serve_file_def serve_compressed_def Let_def
      exists_def isdir_def getsize_def open_rb_def end_headers_def base_end_headers_def
      flush_headers_def send_response_def send_response_only_def send_header_def
      fixed_lines_def fixed_headers_def)

lemma response_file:
  assumes "stat e (translate_path e target) = Some (File c t)"
  shows "response e ''GET'' target =
         [StatusLine 200, Header ''Server'' (version_string e), Header ''Date'' (date_time_now e)]
         @ (if endswith (translate_path e target) ''.gz'' then
              [Header ''Content-Encoding'' ''gzip'',
               Header ''Content-Type'' (guess_type e (translate_path e target)),
               Header ''Content-Length'' (str_nat (length c))]
            else if endswith (translate_path e target) ''.br'' then
              [Header ''Content-Encoding'' ''br'',
               Header ''Content-Type'' (guess_type e (translate_path e target)),
               Header ''Content-Length'' (str_nat (length c))]
            else
              [Header ''Content-type'' (guess_type e (translate_path e target)),
               Header ''Content-Length'' (str_nat (length c)),
               Header ''Last-Modified'' (date_time_string e t)])
         @ fixed_lines @ [Data c]"
proof -
  let ?h = "(request ''GET'' target)\<lparr>send_header_on_compressed :=
                  (if endswith (translate_path e target) ''.gz'' then Some ''gzip''
                   else if endswith (translate_path e target) ''.br'' then Some ''br''
                   else None)\<rparr>"
  have "stat e (translate_path e (path ?h)) = Some (File c t)"
    using assms by (simp add: request_def)
  from send_head_file [OF this] show ?thesis
    by (simp add: response_def handle_one_request_def do_GET_def base_do_GET_def Let_def
        request_def wfile_write_def)
qed

lemma response_unsupported:
  assumes "cmd \<noteq> ''GET''" "cmd \<noteq> ''HEAD''"
  shows "response e cmd target =
     [StatusLine 501, Header ''Server'' (version_string e), Header ''Date'' (date_time_now e),
      Header ''Connection'' ''close'', Header ''Content-Type'' ''text/html;charset=utf-8'',
      Header ''Content-Length''
        (str_nat (length (error_page e 501 (''Unsupported method ('' @ py_repr e cmd @ '')''))))]
     @ fixed_lines @
     (if error_page e 501 (''Unsupported method ('' @ py_repr e cmd @ '')'') \<noteq> []
      then [Data (error_page e 501 (''Unsupported method ('' @ py_repr e cmd @ '')''))] else [])"
  using assms
  by (simp add: response_def handle_one_request_def send_error_wfile request_sel)

lemma header_values_literals:
  "header_values ''Content-Encoding'' fixed_lines = []"
  "header_values ''Content-Type'' fixed_lines = []"
  by (simp_all add: header_values_def fixed_lines_def fixed_headers_def lower_def lower_char_def)

lemma header_values_append:
  "header_values name (xs @ ys) = header_values name xs @ header_values name ys"
  by (simp add: header_values_def headers_append)

lemma header_values_simps:
  "header_values name [] = []"
  "header_values name (Header k v # ls) =
     (if lower k = lower name then v # header_values name ls else header_values name ls)"
  "header_values name (StatusLine code # ls) = header_values name ls"
  "header_values name (Blank # ls) = header_values name ls"
  "header_values name (Data d # ls) = header_values name ls"
  by (simp_all add: header_values_def)

lemmas hv = header_values_append header_values_simps header_values_literals lower_def lower_char_def

lemma example_paths:
  "translate_path example_env ''/x.js.gz'' = ''Build/x.js.gz''"
  "translate_path example_env ''/X.WASM.GZ'' = ''Build/X.WASM.GZ''"
  "translate_path example_env ''/x.symbols.json.br'' = ''Build/x.symbols.json.br''"
  "translate_path example_env ''/../../etc/passwd'' = ''Build/etc/passwd''"
  by code_simp+

lemma example_stats:
  "stat example_env ''Build/x.js.gz'' = Some (File ''compressed script'' 11)"
  "stat example_env ''Build/X.WASM.GZ'' = Some (File ''compressed module'' 13)"
  "stat example_env ''Build/x.symbols.json.br'' = Some (File ''compressed symbols'' 12)"
  "stat example_env ''Build/etc/passwd'' = None"
  "stat example_env ''Build/../../etc/passwd'' = Some (File ''root:x:0:0'' 1)"
  by code_simp+

section \<open>Quoting a relative path and translating it back\<close>



























section \<open>Resolution below the served directory\<close>

















section \<open>Independence of the rest of the file system\<close>















section \<open>The claims\<close>



text \<open>
  C2.  A file whose name ends with a suffix of the override table is served with the
  table's MIME type for that suffix, as the claim lists them; the most specific suffix
  decides, so \<open>x.symbols.json.br\<close> has the type \<open>application/json\<close>.
\<close>

theorem table_suffix_decides_content_type:
  assumes "(ext, mime) \<in> set unity_types"
  shows "(endswith p ext \<longrightarrow> guess_type e p = mime)
     \<and> (stat e (translate_path e target) = Some (File c t)
          \<and> endswith (translate_path e target) ext \<longrightarrow>
          header_values ''Content-Type'' (response e ''GET'' target) = [mime])
     \<and> guess_type e ''x.symbols.json.br'' = ''application/json''
     \<and> set unity_types =
         {(''.unityweb'', ''application/octet-stream''), (''.data'', ''application/octet-stream''),
          (''.data.gz'', ''application/octet-stream''), (''.data.br'', ''application/octet-stream''),
          (''.wasm'', ''application/wasm''), (''.wasm.gz'', ''application/wasm''),
          (''.wasm.br'', ''application/wasm''),
          (''.js.gz'', ''application/javascript''), (''.js.br'', ''application/javascript''),
          (''.symbols.json'', ''application/json''), (''.symbols.json.gz'', ''application/json''),
          (''.symbols.json.br'', ''application/json'')}"
proof -
  have g: "guess_type e q = mime" if "endswith q ext" for q
  proof -
    from endswith_lower [OF that] have "endswith (lower q) ext"
      by (simp add: unity_types_lower [OF assms])
    with assms show ?thesis by (rule guess_type_member)
  qed
  have "header_values ''Content-Type'' (response e ''GET'' target) = [mime]"
    if "stat e (translate_path e target) = Some (File c t)"
      and "endswith (translate_path e target) ext"
    using g [OF that(2)] by (simp add: response_file [OF that(1)] hv)
  moreover have "guess_type e ''x.symbols.json.br'' = ''application/json''"
    by (simp add: guess_type_def lower_literals unity_types_def endswith_def suffix_to_prefix)
  moreover have "set unity_types =
         {(''.unityweb'', ''application/octet-stream''), (''.data'', ''application/octet-stream''),
          (''.data.gz'', ''application/octet-stream''), (''.data.br'', ''application/octet-stream''),
          (''.wasm'', ''application/wasm''), (''.wasm.gz'', ''application/wasm''),
          (''.wasm.br'', ''application/wasm''),
          (''.js.gz'', ''application/javascript''), (''.js.br'', ''application/javascript''),
          (''.symbols.json'', ''application/json''), (''.symbols.json.gz'', ''application/json''),
          (''.symbols.json.br'', ''application/json'')}"
    unfolding unity_types_def by (simp add: insert_commute)
  ultimately show ?thesis using g by blast
qed

theorem table_suffix_decides_content_type_witness:
  "(''.symbols.json.br'', ''application/json'') \<in> set unity_types
   \<and> stat example_env (translate_path example_env ''/x.symbols.json.br'')
       = Some (File ''compressed symbols'' 12)
   \<and> endswith (translate_path example_env ''/x.symbols.json.br'') ''.symbols.json.br''
   \<and> header_values ''Content-Type'' (response example_env ''GET'' ''/x.symbols.json.br'')
       = [''application/json'']
   \<and> guess_type example_env ''Build/x.symbols.json.br'' = ''application/json''"
proof -
  have m: "(''.symbols.json.br'', ''application/json'') \<in> set unity_types"
    by (simp add: unity_types_def)
  have s: "stat example_env (translate_path example_env ''/x.symbols.json.br'')
       = Some (File ''compressed symbols'' 12)"
    by (simp add: example_paths example_stats)
  have x: "endswith (translate_path example_env ''/x.symbols.json.br'') ''.symbols.json.br''"
    by (simp add: example_paths endswith_def suffix_to_prefix)
  from table_suffix_decides_content_type
         [OF m, of "''Build/x.symbols.json.br''" example_env "''/x.symbols.json.br''"
            "''compressed symbols''" 12]
    m s x
  show ?thesis by (simp add: example_paths)
qed

text \<open>
  C3.  A GET request whose resolved path is an existing file is answered with
  \<open>Content-Encoding: gzip\<close> when the path ends with \<open>.gz\<close>, else with
  \<open>Content-Encoding: br\<close> when it ends with \<open>.br\<close>, and else without that header; a file
  named \<open>x.js.gz\<close> has the type \<open>application/javascript\<close> and the encoding \<open>gzip\<close>.
\<close>

theorem content_encoding_follows_suffix:
  assumes "stat e (translate_path e target) = Some (File c t)"
  shows "header_values ''Content-Encoding'' (response e ''GET'' target) =
           (if endswith (translate_path e target) ''.gz'' then [''gzip'']
            else if endswith (translate_path e target) ''.br'' then [''br'']
            else [])
         \<and> (endswith (translate_path e target) ''x.js.gz'' \<longrightarrow>
              header_values ''Content-Type'' (response e ''GET'' target) = [''application/javascript'']
              \<and> header_values ''Content-Encoding'' (response e ''GET'' target) = [''gzip''])"
proof -
  let ?p = "translate_path e target"
  have enc: "header_values ''Content-Encoding'' (response e ''GET'' target) =
           (if endswith ?p ''.gz'' then [''gzip'']
            else if endswith ?p ''.br'' then [''br''] else [])"
    by (simp add: response_file [OF assms] hv)
  have "header_values ''Content-Type'' (response e ''GET'' target) = [''application/javascript'']
        \<and> endswith ?p ''.gz''" if x: "endswith ?p ''x.js.gz''"
  proof -
    from x obtain q where q: "?p = q @ ''x.js.gz''" by (auto simp: endswith_def suffix_def)
    have gz: "endswith ?p ''.gz''"
      unfolding endswith_def q by (rule suffixI [of _ "q @ ''x.js''"]) simp
    have "endswith (lower ?p) ''.js.gz''"
      unfolding endswith_def q by (rule suffixI [of _ "lower q @ ''x''"])
        (simp add: lower_def lower_char_def)
    then have "guess_type e ?p = ''application/javascript''"
      by (intro guess_type_member [of "''.js.gz''"]) (simp_all add: unity_types_def)
    with gz show ?thesis
      by (simp add: response_file [OF assms] hv)
  qed
  with enc show ?thesis by simp
qed

theorem content_encoding_follows_suffix_witness:
  "stat example_env (translate_path example_env ''/x.js.gz'') = Some (File ''compressed script'' 11)
   \<and> header_values ''Content-Encoding'' (response example_env ''GET'' ''/x.js.gz'') = [''gzip'']
   \<and> header_values ''Content-Type'' (response example_env ''GET'' ''/x.js.gz'') = [''application/javascript'']"
proof -
  have s: "stat example_env (translate_path example_env ''/x.js.gz'') = Some (File ''compressed script'' 11)"
    by (simp add: example_paths example_stats)
  have "endswith (translate_path example_env ''/x.js.gz'') ''x.js.gz''"
    by (simp add: example_paths endswith_def suffix_to_prefix)
  moreover have "endswith (translate_path example_env ''/x.js.gz'') ''.gz''"
    by (simp add: example_paths endswith_def suffix_to_prefix)
  ultimately show ?thesis using content_encoding_follows_suffix [OF s] s by simp
qed



text \<open>
  C5.  An \<open>OPTIONS\<close> request: the class has no \<open>do_OPTIONS\<close>, so the dispatch answers
  501 with the error page as the body; the fixed headers, which announce
  \<open>Access-Control-Allow-Methods: GET, OPTIONS\<close>, are present.
\<close>

theorem options_request_is_answered_501:
  "statuses (response e ''OPTIONS'' target) = [501]
   \<and> body (response e ''OPTIONS'' target)
       = error_page e 501 (''Unsupported method ('' @ py_repr e ''OPTIONS'' @ '')'')
   \<and> (''Access-Control-Allow-Methods'', ''GET, OPTIONS'')
       \<in> set (headers (response e ''OPTIONS'' target))"
  by (simp add: response_unsupported proj_append fixed_headers_def)

theorem options_request_is_answered_501_witness:
  "statuses (response example_env ''OPTIONS'' ''/'') = [501]
   \<and> body (response example_env ''OPTIONS'' ''/'') = ''501 Unsupported method (OPTIONS)''"
  using options_request_is_answered_501 [of example_env "''/''"]
  by (simp add: example_env_def str_nat.simps)

text \<open>
  C6.  A request whose method is not \<open>GET\<close>, \<open>HEAD\<close> or \<open>OPTIONS\<close> is not answered 405:
  the dispatch of the library answers 501 (Not Implemented) for every method without a
  \<open>do_\<close> method.
\<close>

theorem other_method_counterexample:
  "''POST'' \<notin> {''GET'', ''HEAD'', ''OPTIONS''}
   \<and> statuses (response example_env ''POST'' ''/index.html'') = [501]
   \<and> statuses (response example_env ''POST'' ''/index.html'') \<noteq> [405]"
  by (simp add: response_unsupported proj_append)

text \<open>
  C6, as the code has it.  A request whose method is not \<open>GET\<close>, \<open>HEAD\<close> or \<open>OPTIONS\<close>
  is answered 501, with the fixed headers.
\<close>

theorem other_method_is_answered_501:
  assumes "cmd \<notin> {''GET'', ''HEAD'', ''OPTIONS''}"
  shows "statuses (response e cmd target) = [501]
         \<and> set fixed_headers \<subseteq> set (headers (response e cmd target))"
  using assms by (auto simp add: response_unsupported proj_append)

theorem other_method_is_answered_501_witness:
  "''DELETE'' \<notin> {''GET'', ''HEAD'', ''OPTIONS''}
   \<and> statuses (response example_env ''DELETE'' ''/index.html'') = [501]"
proof -
  have m: "''DELETE'' \<notin> {''GET'', ''HEAD'', ''OPTIONS''}" by simp
  from other_method_is_answered_501 [OF m, of example_env "''/index.html''"] m
  show ?thesis by blast
qed






text \<open>
  C9.  The table lookup lowers the path, the test for \<open>Content-Encoding\<close> does not: an
  existing file whose name ends with \<open>.GZ\<close> or \<open>.BR\<close> and matches a table suffix when
  lowered is served with the table's type and without \<open>Content-Encoding\<close>; \<open>X.WASM\<close> has
  the type \<open>application/wasm\<close>.
\<close>

theorem uppercase_suffix_has_type_but_no_encoding:
  assumes "stat e (translate_path e target) = Some (File c t)"
    and "endswith (translate_path e target) ''.GZ'' \<or> endswith (translate_path e target) ''.BR''"
    and "(ext, mime) \<in> set unity_types"
    and "endswith (lower (translate_path e target)) ext"
  shows "header_values ''Content-Type'' (response e ''GET'' target) = [mime]
         \<and> header_values ''Content-Encoding'' (response e ''GET'' target) = []
         \<and> guess_type e ''X.WASM'' = ''application/wasm''"
proof -
  let ?p = "translate_path e target"
  have "\<not> endswith ?p ''.gz''" "\<not> endswith ?p ''.br''"
    using assms(2) by (auto dest: endswith_same_length)
  moreover have "guess_type e ?p = mime"
    using assms(3,4) by (rule guess_type_member)
  moreover have "guess_type e ''X.WASM'' = ''application/wasm''"
    by (simp add: guess_type_def lower_literals unity_types_def endswith_def suffix_to_prefix)
  ultimately show ?thesis
    by (simp add: response_file [OF assms(1)] hv)
qed

theorem uppercase_suffix_has_type_but_no_encoding_witness:
  "stat example_env (translate_path example_env ''/X.WASM.GZ'') = Some (File ''compressed module'' 13)
   \<and> endswith (translate_path example_env ''/X.WASM.GZ'') ''.GZ''
   \<and> (''.wasm.gz'', ''application/wasm'') \<in> set unity_types
   \<and> endswith (lower (translate_path example_env ''/X.WASM.GZ'')) ''.wasm.gz''
   \<and> header_values ''Content-Type'' (response example_env ''GET'' ''/X.WASM.GZ'') = [''application/wasm'']
   \<and> header_values ''Content-Encoding'' (response example_env ''GET'' ''/X.WASM.GZ'') = []"
proof -
  have s: "stat example_env (translate_path example_env ''/X.WASM.GZ'') = Some (File ''compressed module'' 13)"
    by (simp add: example_paths example_stats)
  have u: "endswith (translate_path example_env ''/X.WASM.GZ'') ''.GZ''"
    by (simp add: example_paths endswith_def suffix_to_prefix)
  have m: "(''.wasm.gz'', ''application/wasm'') \<in> set unity_types"
    by (simp add: unity_types_def)
  have l: "endswith (lower (translate_path example_env ''/X.WASM.GZ'')) ''.wasm.gz''"
    by (simp add: example_paths endswith_def suffix_to_prefix lower_def lower_char_def)
  from uppercase_suffix_has_type_but_no_encoding [OF s disjI1 [OF u] m l] s u m l
  show ?thesis by blast
qed



end
